theory Spec2Isabelle
  imports Main
begin

section \<open>Data model\<close>

text \<open>
  Identifiers are the hexadecimal strings of the store's ObjectIds; \<open>a.equals(b)\<close> on
  two identifiers is equality of the strings. Timestamps are the ISO strings that
  \<open>moment().toISOString()\<close> returns.
\<close>

type_synonym objectId = string
type_synonym isotime = string

datatype error = TypeError

text \<open>
  A group as the population of \<open>groupRestriction\<close> delivers it: its \<open>_id\<close> and its
  \<open>administrator\<close>, which the source tests for presence before comparing it.
\<close>

record group =
  g_id :: objectId
  administrator :: "objectId option"

text \<open>
  The authenticated actor \<open>req.user\<close>: \<open>{_id, role, groups}\<close>. An absent \<open>groups\<close>
  array is the empty list (\<open>_.find\<close> over \<open>undefined\<close> finds nothing).
\<close>

record user =
  u_id :: objectId
  role :: string
  groups :: "objectId list"

record participant_entry =
  participant :: objectId
  p_datetime :: isotime

text \<open>
  A message: the body of a message request, which the handler stamps and pushes onto
  \<open>event.messages\<close> as it is. The client chooses which fields it sends.
\<close>

record message_body =
  mb_text :: "string option"
  mb_datetime :: "isotime option"
  mb_poster :: "objectId option"

text \<open>
  An event document. The type parameter is what \<open>groupRestriction\<close> holds: identifiers
  in the stored document, group documents once the field is populated. The field itself
  may be absent (\<open>None\<close>). The data model gives every event a creator and a place.
\<close>

record 'g event =
  e_id :: objectId
  e_name :: "string option"
  e_datetime :: "string option"
  e_meetupTime :: "string option"
  e_meetupPlace :: "string option"
  e_place :: objectId
  creator :: objectId
  created :: "isotime option"
  canceled :: bool
  groupRestriction :: "'g list option"
  participants :: "participant_entry list"
  messages :: "message_body list"

section \<open>Authorization predicates\<close>

text \<open>
  \<open>event.groupRestriction && event.groupRestriction.length\<close>: the field is present and
  its length is not zero.
\<close>

definition restricted :: "'g event \<Rightarrow> bool" where
  "restricted event =
     (case groupRestriction event of None \<Rightarrow> False | Some gs \<Rightarrow> length gs \<noteq> 0)"

text \<open>\<open>_.find\<close> over a field that may be absent iterates over nothing when it is.\<close>

definition restriction_list :: "'g event \<Rightarrow> 'g list" where
  "restriction_list event = (case groupRestriction event of None \<Rightarrow> [] | Some gs \<Rightarrow> gs)"

text \<open>\<open>group.administrator && group.administrator.equals(user._id)\<close>\<close>

definition administers :: "user \<Rightarrow> group \<Rightarrow> bool" where
  "administers u g = (case administrator g of None \<Rightarrow> False | Some a \<Rightarrow> a = u_id u)"

text \<open>
  \<open>canView\<close>, called with both arguments. \<open>_.find\<close> is \<^const>\<open>find\<close>; its result is
  an object (a group, an identifier) when there is one, so \<open>!!\<close> of it is \<open>\<noteq> None\<close>.
\<close>

definition canView :: "user option \<Rightarrow> group event \<Rightarrow> bool" where
  "canView user event =
     (let a = \<not> restricted event in
      case user of
        None \<Rightarrow> a
      | Some u \<Rightarrow>
          (let b = (role u = ''admin'' \<or> role u = ''curator'');
               c = (find (\<lambda>g. administers u g \<or>
                            find (\<lambda>groupId. g_id g = groupId) (groups u) \<noteq> None)
                      (restriction_list event) \<noteq> None)
           in a \<or> b \<or> c))"

text \<open>
  \<open>canEdit\<close>, called with both arguments. It has no guard for an absent user: reading
  \<open>user.role\<close> of \<open>undefined\<close> raises a TypeError.
\<close>

definition canEdit :: "user option \<Rightarrow> group event \<Rightarrow> error + bool" where
  "canEdit user event =
     (case user of
        None \<Rightarrow> Inl TypeError
      | Some u \<Rightarrow>
          (let a = (role u = ''admin'' \<or> role u = ''curator'');
               b = (creator event = u_id u);
               c = (find (\<lambda>g. administers u g) (restriction_list event) \<noteq> None)
           in Inr (a \<or> b \<or> c)))"

section \<open>Curried calls\<close>

text \<open>
  Both predicates are wrapped in \<open>_.curry\<close>. A call that supplies the user only,
  \<open>canView(req.user)\<close>, does not run the body: it returns a function that waits for the
  event. \<open>_.filter(events, canView(req.user))\<close> then calls that function on each event.
  A function object is truthy, whatever it would return.
\<close>

datatype 'r curried = Waiting "group event \<Rightarrow> 'r"

definition canView1 :: "user option \<Rightarrow> bool curried" where
  "canView1 user = Waiting (canView user)"

definition canEdit1 :: "user option \<Rightarrow> (error + bool) curried" where
  "canEdit1 user = Waiting (canEdit user)"

definition call :: "'r curried \<Rightarrow> group event \<Rightarrow> 'r" where
  "call f event = (case f of Waiting g \<Rightarrow> g event)"

definition truthy :: "'r curried \<Rightarrow> bool" where
  "truthy f = (case f of Waiting g \<Rightarrow> True)"

text \<open>Truthiness of a string field of a request body: present and not the empty string.\<close>

definition truthy_str :: "string option \<Rightarrow> bool" where
  "truthy_str v = (case v of None \<Rightarrow> False | Some s \<Rightarrow> s \<noteq> [])"

text \<open>\<open>a || b\<close> on such fields.\<close>

definition or_else :: "string option \<Rightarrow> string option \<Rightarrow> string option" where
  "or_else a b = (if truthy_str a then a else b)"

section \<open>Requests, responses, store\<close>

text \<open>The body of an event request: every field is optional, the client chooses.\<close>

record event_body =
  b_id :: "objectId option"
  b_name :: "string option"
  b_datetime :: "string option"
  b_meetupTime :: "string option"
  b_meetupPlace :: "string option"
  b_place :: "objectId option"
  b_groupRestriction :: "objectId list option"
  b_participants :: "participant_entry list option"
  b_messages :: "message_body list option"
  b_created :: "isotime option"
  b_creator :: "objectId option"
  b_canceled :: "bool option"

datatype event_json = Populated "group event" | Unpopulated "objectId event"

record notification_data =
  d_name :: string
  d_event :: event_json
  d_when :: "string option"
  d_text :: "string option"
  d_poster :: "user option"

record notification =
  n_user :: objectId
  n_datetime :: isotime
  n_data :: notification_data

text \<open>
  Lists. A place in an entry of a request body is an identifier, or a populated place
  object, whose \<open>_id\<close> field may be missing; \<open>en_rest\<close> and the second component of
  \<open>PlaceObject\<close> stand for the other properties.
\<close>

datatype place_value = PlaceId string | PlaceObject "string option" "(string \<times> string) list"

record entry =
  en_place :: "place_value option"
  en_rest :: "(string \<times> string) list"

record list_body =
  lb_id :: "string option"
  lb_name :: "string option"
  lb_entries :: "entry list option"

record list_doc =
  l_id :: objectId
  l_name :: "string option"
  l_entries :: "entry list"

text \<open>
  What the collaborators answer during one request: the error, if any, that the store
  hands to each callback; the reading of the clock at the k-th call of \<open>moment()\<close>; the
  text \<open>moment(d).format('llll')\<close>; the identifier the store gives a new document.
\<close>

record env =
  findErr :: "string option"
  createErr :: "string option"
  saveErr :: "string option"
  populateErr :: "string option"
  clock :: "nat \<Rightarrow> isotime"
  format_llll :: "string option \<Rightarrow> string"
  newId :: objectId

text \<open>
  The store: the event, group and list collections and the notification records handed
  to \<open>Notification.create\<close>, in order of submission.
\<close>

record db =
  events :: "objectId event list"
  groupDocs :: "group list"
  submitted :: "notification list"
  listDocs :: "list_doc list"

datatype payload =
    NoBody
  | Message string
  | StorageError string
  | EventJson event_json
  | EventsJson "group event list"
  | ListJson list_doc

text \<open>
  What a handler does with the request: it sends a status and a payload, or an
  exception escapes it and it sends nothing.
\<close>

datatype response = Respond nat payload | Throws error

definition handleError :: "string \<Rightarrow> response" where
  "handleError err = Respond 500 (StorageError err)"

section \<open>Store operations\<close>

definition findById :: "objectId \<Rightarrow> db \<Rightarrow> objectId event option" where
  "findById i d = find (\<lambda>e. e_id e = i) (events d)"

text \<open>
  Population of \<open>groupRestriction\<close>: each identifier is replaced by the group document
  with that \<open>_id\<close>; an identifier without a document is dropped. Population of
  \<open>participants.participant\<close> and \<open>messages.poster\<close> only adds users' names to the
  response and is not modelled.
\<close>

definition populate :: "group list \<Rightarrow> objectId event \<Rightarrow> group event" where
  "populate gs e =
     \<lparr> e_id = e_id e, e_name = e_name e, e_datetime = e_datetime e,
       e_meetupTime = e_meetupTime e, e_meetupPlace = e_meetupPlace e,
       e_place = e_place e, creator = creator e, created = created e,
       canceled = canceled e,
       groupRestriction =
         map_option (List.map_filter (\<lambda>i. find (\<lambda>g. g_id g = i) gs)) (groupRestriction e),
       participants = participants e, messages = messages e \<rparr>"

text \<open>\<open>event.save\<close>: the document replaces the stored one with its \<open>_id\<close>.\<close>

definition save :: "objectId event \<Rightarrow> db \<Rightarrow> db" where
  "save event d = d\<lparr>events := map (\<lambda>x. if e_id x = e_id event then event else x) (events d)\<rparr>"

text \<open>
  Modelled from the spec: the Event schema (event.model.js is not part of the sources).
  \<open>Event.create\<close> builds a document from the body: \<open>participants\<close> and \<open>messages\<close>
  default to empty arrays, \<open>canceled\<close> to false, the \<open>_id\<close> to a new identifier; every
  event has a place and a creator; two documents never share an \<open>_id\<close>.
\<close>

definition Event_create :: "env \<Rightarrow> event_body \<Rightarrow> db \<Rightarrow> string + (objectId event \<times> db)" where
  "Event_create env body d =
     (case createErr env of
        Some err \<Rightarrow> Inl err
      | None \<Rightarrow>
          (case (b_place body, b_creator body) of
             (Some p, Some c) \<Rightarrow>
               (let doc =
                  \<lparr> e_id = (case b_id body of None \<Rightarrow> newId env | Some i \<Rightarrow> i),
                    e_name = b_name body, e_datetime = b_datetime body,
                    e_meetupTime = b_meetupTime body, e_meetupPlace = b_meetupPlace body,
                    e_place = p, creator = c, created = b_created body,
                    canceled = (case b_canceled body of None \<Rightarrow> False | Some v \<Rightarrow> v),
                    groupRestriction = b_groupRestriction body,
                    participants = (case b_participants body of None \<Rightarrow> [] | Some ps \<Rightarrow> ps),
                    messages = (case b_messages body of None \<Rightarrow> [] | Some ms \<Rightarrow> ms) \<rparr>
                in if findById (e_id doc) d \<noteq> None then Inl ''E11000 duplicate key''
                   else Inr (doc, d\<lparr>events := events d @ [doc]\<rparr>))
           | _ \<Rightarrow> Inl ''ValidationError''))"

section \<open>Helpers of the handlers\<close>

text \<open>
  \<open>_.find(event.participants, function (p) { return req.user._id.equals(p.participant); })\<close>.
  The callback reads \<open>req.user._id\<close>: without a user it raises a TypeError at the first
  entry, and is never called when there is no entry.
\<close>

definition find_participant ::
  "user option \<Rightarrow> participant_entry list \<Rightarrow> error + participant_entry option" where
  "find_participant user ps =
     (case user of
        None \<Rightarrow> (if ps = [] then Inr None else Inl TypeError)
      | Some u \<Rightarrow> Inr (find (\<lambda>p. u_id u = participant p) ps))"

text \<open>\<open>_.findIndex\<close>: the index of the first match; \<open>None\<close> is its \<open>-1\<close>.\<close>

fun findIndex :: "('a \<Rightarrow> bool) \<Rightarrow> 'a list \<Rightarrow> nat option" where
  "findIndex P [] = None"
| "findIndex P (x # xs) = (if P x then Some 0 else map_option Suc (findIndex P xs))"

definition find_participant_index ::
  "user option \<Rightarrow> participant_entry list \<Rightarrow> error + nat option" where
  "find_participant_index user ps =
     (case user of
        None \<Rightarrow> (if ps = [] then Inr None else Inl TypeError)
      | Some u \<Rightarrow> Inr (findIndex (\<lambda>p. u_id u = participant p) ps))"

text \<open>\<open>xs.splice(i, 1)\<close>\<close>

definition splice1 :: "nat \<Rightarrow> 'a list \<Rightarrow> 'a list" where
  "splice1 i xs = take i xs @ drop (Suc i) xs"

text \<open>
  The notifications of \<open>cancel\<close>: one per plucked participant identifier, the k-th one
  stamped with the k-th reading of the clock.
\<close>

definition cancel_notifications :: "env \<Rightarrow> event_json \<Rightarrow> objectId event \<Rightarrow> notification list" where
  "cancel_notifications env ev event =
     map (\<lambda>(k, uid).
            \<lparr> n_user = uid, n_datetime = clock env k,
              n_data = \<lparr> d_name = ''event.cancel'', d_event = ev,
                         d_when = Some (format_llll env (e_datetime event)),
                         d_text = None, d_poster = None \<rparr> \<rparr>)
       (enumerate 0 (map participant (participants event)))"

text \<open>
  The notifications of \<open>message\<close>: the poster's identifier is filtered out of the plucked
  identifiers first. The clock was read once before, for the message itself.
\<close>

definition message_notifications ::
  "env \<Rightarrow> user \<Rightarrow> string option \<Rightarrow> event_json \<Rightarrow> objectId event \<Rightarrow> notification list" where
  "message_notifications env u txt ev event =
     map (\<lambda>(k, uid).
            \<lparr> n_user = uid, n_datetime = clock env k,
              n_data = \<lparr> d_name = ''event.message'', d_event = ev, d_when = None,
                         d_text = txt, d_poster = Some u \<rparr> \<rparr>)
       (enumerate 1 (filter (\<lambda>uid. \<not> (u_id u = uid)) (map participant (participants event))))"

section \<open>Event handlers\<close>

text \<open>Get list of visible events.\<close>

definition all_events :: "env \<Rightarrow> user option \<Rightarrow> db \<Rightarrow> response \<times> db" where
  "all_events env user d =
     (case findErr env of
        Some err \<Rightarrow> (handleError err, d)
      | None \<Rightarrow>
          (let evs = map (populate (groupDocs d)) (events d) in
           (Respond 200 (EventsJson (filter (call (canView1 user)) evs)), d)))"

text \<open>Get list of events by place id.\<close>

definition index :: "env \<Rightarrow> user option \<Rightarrow> objectId \<Rightarrow> db \<Rightarrow> response \<times> db" where
  "index env user placeId d =
     (case findErr env of
        Some err \<Rightarrow> (handleError err, d)
      | None \<Rightarrow>
          (let evs = map (populate (groupDocs d)) (filter (\<lambda>e. e_place e = placeId) (events d)) in
           (Respond 200 (EventsJson (filter (call (canView1 user)) evs)), d)))"

text \<open>Get a single event. The gate tests the value of \<open>canView(req.user)\<close>.\<close>

definition show_event :: "env \<Rightarrow> user option \<Rightarrow> objectId \<Rightarrow> db \<Rightarrow> response \<times> db" where
  "show_event env user i d =
     (case findErr env of
        Some err \<Rightarrow> (handleError err, d)
      | None \<Rightarrow>
          (case findById i d of
             None \<Rightarrow> (Respond 404 NoBody, d)
           | Some stored \<Rightarrow>
               if \<not> truthy (canView1 user) then (Respond 403 NoBody, d)
               else (Respond 200 (EventJson (Populated (populate (groupDocs d) stored))), d)))"

text \<open>
  Creates a new event. The two \<open>delete\<close>s come first, then the test of the place, then
  the three assignments; \<open>req.user._id\<close> raises a TypeError without a user.
\<close>

definition create :: "env \<Rightarrow> user option \<Rightarrow> event_body \<Rightarrow> db \<Rightarrow> response \<times> db" where
  "create env user body0 d =
     (let body1 = body0\<lparr>b_participants := None, b_messages := None\<rparr> in
      if \<not> truthy_str (b_place body1)
      then (Respond 403 (Message ''An event must have an associated place.''), d)
      else
        (case user of
           None \<Rightarrow> (Throws TypeError, d)
         | Some u \<Rightarrow>
             (let body2 = body1\<lparr>b_created := Some (clock env 0), b_creator := Some (u_id u),
                                b_participants :=
                                  Some [\<lparr>participant = u_id u, p_datetime = clock env 1\<rparr>]\<rparr>
              in case Event_create env body2 d of
                   Inl err \<Rightarrow> (handleError err, d)
                 | Inr (event, d') \<Rightarrow> (Respond 201 (EventJson (Unpopulated event)), d'))))"

text \<open>
  Updates an existing event. The gate tests the value of \<open>canEdit(req.user)\<close>. An array
  in the body is truthy also when it is empty. The assignments are made on the stored
  document; the populated one is what the response carries.
\<close>

definition update :: "env \<Rightarrow> user option \<Rightarrow> objectId \<Rightarrow> event_body \<Rightarrow> db \<Rightarrow> response \<times> db" where
  "update env user i body0 d =
     (let body = body0\<lparr>b_id := None, b_participants := None, b_messages := None\<rparr> in
      case findErr env of
        Some err \<Rightarrow> (handleError err, d)
      | None \<Rightarrow>
          (case findById i d of
             None \<Rightarrow> (Respond 404 NoBody, d)
           | Some stored \<Rightarrow>
               if \<not> truthy (canEdit1 user)
               then (Respond 403 (Message ''You are not authorized to modify this event''), d)
               else
                 (let event = stored
                        \<lparr> e_name := or_else (b_name body) (e_name stored),
                          e_datetime := or_else (b_datetime body) (e_datetime stored),
                          e_meetupTime := or_else (b_meetupTime body) (e_meetupTime stored),
                          e_meetupPlace := or_else (b_meetupPlace body) (e_meetupPlace stored),
                          groupRestriction :=
                            (case b_groupRestriction body of
                               None \<Rightarrow> groupRestriction stored
                             | Some ids \<Rightarrow> Some ids) \<rparr>
                  in case saveErr env of
                       Some err \<Rightarrow> (handleError err, d)
                     | None \<Rightarrow>
                         (let d' = save event d in
                          case populateErr env of
                            Some err \<Rightarrow> (handleError err, d')
                          | None \<Rightarrow>
                              (Respond 200 (EventJson (Populated (populate (groupDocs d') event))),
                               d')))))"

text \<open>Cancels the event and hands the notifications to \<open>Notification.create\<close>.\<close>

definition cancel :: "env \<Rightarrow> user option \<Rightarrow> objectId \<Rightarrow> db \<Rightarrow> response \<times> db" where
  "cancel env user i d =
     (case findErr env of
        Some err \<Rightarrow> (handleError err, d)
      | None \<Rightarrow>
          (case findById i d of
             None \<Rightarrow> (Respond 404 NoBody, d)
           | Some stored \<Rightarrow>
               if \<not> truthy (canEdit1 user)
               then (Respond 403 (Message ''You are not authorized to modify this event''), d)
               else
                 (let event = stored\<lparr>canceled := True\<rparr> in
                  case saveErr env of
                    Some err \<Rightarrow> (handleError err, d)
                  | None \<Rightarrow>
                      (let d' = save event d;
                           ev = Populated (populate (groupDocs d') event);
                           notifications = cancel_notifications env ev event
                       in (Respond 200 (EventJson ev),
                           d'\<lparr>submitted := submitted d' @ notifications\<rparr>)))))"

text \<open>
  Joins the user as a participant. Without a user the search raises when there is an
  entry, and the \<open>push\<close> raises (it reads \<open>req.user._id\<close>) when there is none.
\<close>

definition join :: "env \<Rightarrow> user option \<Rightarrow> objectId \<Rightarrow> db \<Rightarrow> response \<times> db" where
  "join env user i d =
     (case findErr env of
        Some err \<Rightarrow> (handleError err, d)
      | None \<Rightarrow>
          (case findById i d of
             None \<Rightarrow> (Respond 404 NoBody, d)
           | Some stored \<Rightarrow>
               if \<not> truthy (canView1 user) then (Respond 403 NoBody, d)
               else
                 (case find_participant user (participants stored) of
                    Inl e \<Rightarrow> (Throws e, d)
                  | Inr (Some p) \<Rightarrow>
                      (Respond 403 (Message ''You have already joined this event.''), d)
                  | Inr None \<Rightarrow>
                      (case user of
                         None \<Rightarrow> (Throws TypeError, d)
                       | Some u \<Rightarrow>
                           (let event = stored
                                  \<lparr>participants := participants stored @
                                     [\<lparr>participant = u_id u, p_datetime = clock env 0\<rparr>]\<rparr>
                            in case saveErr env of
                                 Some err \<Rightarrow> (handleError err, d)
                               | None \<Rightarrow>
                                   (let d' = save event d in
                                    case populateErr env of
                                      Some err \<Rightarrow> (handleError err, d')
                                    | None \<Rightarrow>
                                        (Respond 200
                                           (EventJson (Populated (populate (groupDocs d') event))),
                                         d')))))))"

text \<open>User backs out of event. The event is loaded without population.\<close>

definition unjoin :: "env \<Rightarrow> user option \<Rightarrow> objectId \<Rightarrow> db \<Rightarrow> response \<times> db" where
  "unjoin env user i d =
     (case findErr env of
        Some err \<Rightarrow> (handleError err, d)
      | None \<Rightarrow>
          (case findById i d of
             None \<Rightarrow> (Respond 404 NoBody, d)
           | Some stored \<Rightarrow>
               (case find_participant_index user (participants stored) of
                  Inl e \<Rightarrow> (Throws e, d)
                | Inr None \<Rightarrow> (Respond 403 (Message ''You have not joined this event.''), d)
                | Inr (Some pIdx) \<Rightarrow>
                    (let event = stored\<lparr>participants := splice1 pIdx (participants stored)\<rparr> in
                     case saveErr env of
                       Some err \<Rightarrow> (handleError err, d)
                     | None \<Rightarrow>
                         (let d' = save event d in
                          case populateErr env of
                            Some err \<Rightarrow> (handleError err, d')
                          | None \<Rightarrow> (Respond 200 (EventJson (Unpopulated event)), d'))))))"

text \<open>
  Posts a message. After a successful search there is a user; the branch without one is
  the TypeError of \<open>req.user._id\<close>.
\<close>

definition message ::
  "env \<Rightarrow> user option \<Rightarrow> objectId \<Rightarrow> message_body \<Rightarrow> db \<Rightarrow> response \<times> db" where
  "message env user i body0 d =
     (case findErr env of
        Some err \<Rightarrow> (handleError err, d)
      | None \<Rightarrow>
          (case findById i d of
             None \<Rightarrow> (Respond 404 NoBody, d)
           | Some stored \<Rightarrow>
               (case find_participant user (participants stored) of
                  Inl e \<Rightarrow> (Throws e, d)
                | Inr None \<Rightarrow>
                    (Respond 403 (Message ''You must be attending this event to send messages.''), d)
                | Inr (Some p) \<Rightarrow>
                    (case user of
                       None \<Rightarrow> (Throws TypeError, d)
                     | Some u \<Rightarrow>
                         (let body = body0\<lparr>mb_datetime := Some (clock env 0),
                                            mb_poster := Some (u_id u)\<rparr>;
                              event = stored\<lparr>messages := messages stored @ [body]\<rparr>
                          in case saveErr env of
                               Some err \<Rightarrow> (handleError err, d)
                             | None \<Rightarrow>
                                 (let d' = save event d;
                                      notifications =
                                        message_notifications env u (mb_text body)
                                          (Unpopulated event) event;
                                      d'' = d'\<lparr>submitted := submitted d' @ notifications\<rparr>
                                  in case populateErr env of
                                       Some err \<Rightarrow> (handleError err, d'')
                                     | None \<Rightarrow>
                                         (Respond 200 (EventJson (Unpopulated event)), d'')))))))"

section \<open>List handlers\<close>

text \<open>
  The body of the \<open>forEach\<close>: \<open>if (entry.place && entry.place._id) entry.place = entry.place._id\<close>.
  An identifier is a string and has no \<open>_id\<close> property; an object is truthy; its \<open>_id\<close> is
  truthy when it is present and not the empty string.
\<close>

definition unpopulate_entry :: "entry \<Rightarrow> entry" where
  "unpopulate_entry entry =
     (case en_place entry of
        Some (PlaceObject pid rest) \<Rightarrow>
          (if truthy_str pid
           then (case pid of Some i \<Rightarrow> entry\<lparr>en_place := Some (PlaceId i)\<rparr> | None \<Rightarrow> entry)
           else entry)
      | _ \<Rightarrow> entry)"

text \<open>
  Updates an existing list. \<open>req.body.entries.forEach\<close> comes before the lookup and
  raises a TypeError when the body has no \<open>entries\<close>. The response carries the saved
  list; the population of its places is not modelled.
\<close>

definition lists_update :: "env \<Rightarrow> objectId \<Rightarrow> list_body \<Rightarrow> db \<Rightarrow> response \<times> db" where
  "lists_update env i body0 d =
     (let body1 = (if truthy_str (lb_id body0) then body0\<lparr>lb_id := None\<rparr> else body0) in
      case lb_entries body1 of
        None \<Rightarrow> (Throws TypeError, d)
      | Some es \<Rightarrow>
          (let body = body1\<lparr>lb_entries := Some (map unpopulate_entry es)\<rparr> in
           case findErr env of
             Some err \<Rightarrow> (handleError err, d)
           | None \<Rightarrow>
               (case find (\<lambda>l. l_id l = i) (listDocs d) of
                  None \<Rightarrow> (Respond 404 NoBody, d)
                | Some stored \<Rightarrow>
                    (let list = stored
                           \<lparr> l_entries := (case lb_entries body of None \<Rightarrow> [] | Some es' \<Rightarrow> es'),
                             l_name := or_else (lb_name body) (l_name stored) \<rparr>
                     in case saveErr env of
                          Some err \<Rightarrow> (handleError err, d)
                        | None \<Rightarrow>
                            (let d' = d\<lparr>listDocs := map (\<lambda>x. if l_id x = l_id list then list else x)
                                                     (listDocs d)\<rparr>
                             in case populateErr env of
                                  Some err \<Rightarrow> (handleError err, d')
                                | None \<Rightarrow> (Respond 200 (ListJson list), d'))))))"

text \<open>
  An entry refers to its place by identifier (or has no place); a populated place, if
  there is one, carries a truthy \<open>_id\<close>.
\<close>

definition place_is_reference :: "entry \<Rightarrow> bool" where
  "place_is_reference e = (case en_place e of Some (PlaceObject pid rest) \<Rightarrow> False | _ \<Rightarrow> True)"

definition place_has_id :: "entry \<Rightarrow> bool" where
  "place_has_id e =
     (case en_place e of Some (PlaceObject pid rest) \<Rightarrow> truthy_str pid | _ \<Rightarrow> True)"

section \<open>Requests and the invariant of participation\<close>

datatype request =
    ReqAll
  | ReqIndex objectId
  | ReqShow objectId
  | ReqCreate event_body
  | ReqUpdate objectId event_body
  | ReqCancel objectId
  | ReqJoin objectId
  | ReqUnjoin objectId
  | ReqMessage objectId message_body
  | ReqListUpdate objectId list_body

text \<open>
  One request to one of the handlers above, as the routes of the HTTP surface dispatch it;
  quantifying over \<open>request\<close> is quantifying over every handler and its input.
\<close>

fun handle :: "env \<Rightarrow> user option \<Rightarrow> request \<Rightarrow> db \<Rightarrow> response \<times> db" where
  "handle env user ReqAll d = all_events env user d"
| "handle env user (ReqIndex placeId) d = index env user placeId d"
| "handle env user (ReqShow i) d = show_event env user i d"
| "handle env user (ReqCreate body) d = create env user body d"
| "handle env user (ReqUpdate i body) d = update env user i body d"
| "handle env user (ReqCancel i) d = cancel env user i d"
| "handle env user (ReqJoin i) d = join env user i d"
| "handle env user (ReqUnjoin i) d = unjoin env user i d"
| "handle env user (ReqMessage i body) d = message env user i body d"
| "handle env user (ReqListUpdate i body) d = lists_update env i body d"

text \<open>A user appears at most once in \<open>participants\<close>: in one event, in every stored event.\<close>

definition participants_once :: "'g event \<Rightarrow> bool" where
  "participants_once e = distinct (map participant (participants e))"

definition all_participants_once :: "db \<Rightarrow> bool" where
  "all_participants_once d = list_all participants_once (events d)"

section \<open>Concrete inputs\<close>

text \<open>A small store and its actors, on which the results below are evaluated.\<close>

definition group1 :: group where
  "group1 = \<lparr>g_id = ''g1'', administrator = Some ''carol''\<rparr>"

definition alice :: user where
  "alice = \<lparr>u_id = ''alice'', role = ''user'', groups = []\<rparr>"

definition bob :: user where
  "bob = \<lparr>u_id = ''bob'', role = ''user'', groups = []\<rparr>"

definition dave :: user where
  "dave = \<lparr>u_id = ''dave'', role = ''user'', groups = [''g1'']\<rparr>"

definition event1 :: "objectId event" where
  "event1 =
     \<lparr> e_id = ''e1'', e_name = Some ''Picnic'', e_datetime = Some ''2015-06-01T10:00:00.000Z'',
       e_meetupTime = None, e_meetupPlace = None, e_place = ''p1'', creator = ''alice'',
       created = Some ''2015-05-01T08:00:00.000Z'', canceled = False,
       groupRestriction = Some [''g1''],
       participants = [\<lparr>participant = ''alice'', p_datetime = ''2015-05-01T08:00:00.000Z''\<rparr>,
                       \<lparr>participant = ''dave'', p_datetime = ''2015-05-02T09:00:00.000Z''\<rparr>],
       messages = [] \<rparr>"

definition event2 :: "objectId event" where
  "event2 = event1\<lparr>e_id := ''e2'', groupRestriction := Some []\<rparr>"

definition b0 :: event_body where
  "b0 = \<lparr> b_id = None, b_name = None, b_datetime = None, b_meetupTime = None,
          b_meetupPlace = None, b_place = None, b_groupRestriction = None,
          b_participants = None, b_messages = None, b_created = None, b_creator = None,
          b_canceled = None \<rparr>"

definition list1 :: list_doc where
  "list1 = \<lparr>l_id = ''l1'', l_name = Some ''Favourites'', l_entries = []\<rparr>"

definition db1 :: db where
  "db1 = \<lparr>events = [event1, event2], groupDocs = [group1], submitted = [], listDocs = [list1]\<rparr>"

definition env1 :: env where
  "env1 =
     \<lparr> findErr = None, createErr = None, saveErr = None, populateErr = None,
       clock = (\<lambda>k. if k = 0 then ''2015-05-03T12:00:00.000Z'' else ''2015-05-03T12:00:00.001Z''),
       format_llll = (\<lambda>d. ''Mon, Jun 1, 2015 10:00 AM''), newId = ''e3'' \<rparr>"

definition body1 :: event_body where
  "body1 = b0\<lparr> b_name := Some ''Hike'', b_place := Some ''p1'',
                b_participants := Some [\<lparr>participant = ''mallory'', p_datetime = ''2015-01-01T00:00:00.000Z''\<rparr>,
                                        \<lparr>participant = ''bob'', p_datetime = ''2015-01-01T00:00:00.000Z''\<rparr>],
                b_messages := Some [\<lparr>mb_text = Some ''forged'', mb_datetime = None,
                                     mb_poster = Some ''alice''\<rparr>] \<rparr>"

definition msg1 :: message_body where
  "msg1 = \<lparr>mb_text = Some ''See you there'', mb_datetime = Some ''1999-01-01T00:00:00.000Z'',
            mb_poster = Some ''alice''\<rparr>"

definition entries1 :: "entry list" where
  "entries1 =
     [\<lparr>en_place = Some (PlaceObject (Some ''p1'') [(''name'', ''Cafe'')]), en_rest = [(''note'', ''first'')]\<rparr>,
      \<lparr>en_place = Some (PlaceId ''p2''), en_rest = []\<rparr>]"

definition lbody1 :: list_body where
  "lbody1 = \<lparr>lb_id = Some ''l1'', lb_name = Some ''Renamed'', lb_entries = Some entries1\<rparr>"

section \<open>Results\<close>

subsection \<open>Searching a list\<close>

lemma find_neq_None_iff: "(find P xs \<noteq> None) = (\<exists>x \<in> set xs. P x)"
  by (induction xs) auto

lemma find_ex_Some_iff: "(\<exists>y. find P xs = Some y) = (\<exists>x \<in> set xs. P x)"
  using find_neq_None_iff [of P xs] by auto

lemma find_eq_None_iff: "(find P xs = None) = (\<not> (\<exists>x \<in> set xs. P x))"
  using find_neq_None_iff [of P xs] by auto

lemma restriction_list_Some: "groupRestriction e = Some gs \<Longrightarrow> restriction_list e = gs"
  by (simp add: restriction_list_def)

lemma find_None_participant:
  "(find (\<lambda>p. uid = participant p) ps = None) = (uid \<notin> participant ` set ps)"
  by (auto simp: find_eq_None_iff)

lemma findIndex_None: "(findIndex P xs = None) = (\<not> (\<exists>x \<in> set xs. P x))"
  by (induction xs) auto

lemma findIndex_Some:
  "findIndex P xs = Some k \<Longrightarrow>
   k < length xs \<and> P (xs ! k) \<and> (\<forall>x \<in> set (take k xs). \<not> P x)"
proof (induction xs arbitrary: k)
  case Nil
  then show ?case by simp
next
  case (Cons x xs)
  show ?case
  proof (cases "P x")
    case True
    with Cons.prems show ?thesis by simp
  next
    case False
    with Cons.prems obtain j where j: "findIndex P xs = Some j" "k = Suc j" by auto
    from Cons.IH [OF j(1)] False j(2) show ?thesis by simp
  qed
qed

lemma distinct_splice1: "distinct (map f xs) \<Longrightarrow> distinct (map f (splice1 k xs))"
proof -
  assume d: "distinct (map f xs)"
  have "map f (splice1 k xs) = take k (map f xs) @ drop (Suc k) (map f xs)"
    by (simp add: splice1_def take_map drop_map)
  moreover have "distinct (take k (map f xs) @ drop (Suc k) (map f xs))"
    using d set_take_disj_set_drop_if_distinct [of "map f xs" k "Suc k"]
    by (simp add: distinct_take distinct_drop)
  ultimately show ?thesis by simp
qed

lemma filter_others_distinct:
  assumes "distinct (map f (pre @ p # post))"
  shows "filter (\<lambda>q. f q \<noteq> f p) (pre @ p # post) = pre @ post"
proof -
  from assms have "\<forall>q \<in> set pre. f q \<noteq> f p" "\<forall>q \<in> set post. f q \<noteq> f p"
    by (auto simp: image_iff)
  then show ?thesis by (simp add: filter_id_conv)
qed

lemma length_filter_others:
  assumes "distinct ys" "a \<in> set ys"
  shows "length (filter (\<lambda>y. y \<noteq> a) ys) = length ys - 1"
proof -
  have "filter (\<lambda>y. y \<noteq> a) ys = removeAll a ys"
    by (induction ys) auto
  also from assms(1) have "\<dots> = remove1 a ys" by (simp add: distinct_remove1_removeAll)
  finally show ?thesis using assms(2) by (simp add: length_remove1)
qed

subsection \<open>The store\<close>

lemma find_replace:
  "find (\<lambda>x. e_id x = i) xs = Some stored \<Longrightarrow> e_id ev = e_id stored \<Longrightarrow>
   find (\<lambda>x. e_id x = i) (map (\<lambda>x. if e_id x = e_id ev then ev else x) xs) = Some ev"
  by (induction xs) (auto split: if_splits)

lemma findById_save:
  "findById i d = Some stored \<Longrightarrow> e_id ev = e_id stored \<Longrightarrow> findById i (save ev d) = Some ev"
  using find_replace [of i "events d" stored ev] by (simp add: findById_def save_def)

lemma findById_in_set: "findById i d = Some stored \<Longrightarrow> stored \<in> set (events d)"
  by (auto simp: findById_def find_Some_iff)

lemma save_other_fields:
  "groupDocs (save ev d) = groupDocs d" "submitted (save ev d) = submitted d"
  "listDocs (save ev d) = listDocs d"
  by (simp_all add: save_def)

lemma once_save:
  "all_participants_once d \<Longrightarrow> participants_once ev \<Longrightarrow> all_participants_once (save ev d)"
  by (auto simp: all_participants_once_def save_def list_all_iff)

lemma once_stored:
  "all_participants_once d \<Longrightarrow> findById i d = Some stored \<Longrightarrow> participants_once stored"
  by (auto simp: all_participants_once_def list_all_iff dest: findById_in_set)

lemma once_submitted [simp]:
  "all_participants_once (d\<lparr>submitted := ns\<rparr>) = all_participants_once d"
  by (simp add: all_participants_once_def)

lemma once_lists [simp]:
  "all_participants_once (d\<lparr>listDocs := ls\<rparr>) = all_participants_once d"
  by (simp add: all_participants_once_def)

lemma truthy_canView1 [simp]: "truthy (canView1 user)"
  by (simp add: truthy_def canView1_def)

lemma truthy_canEdit1 [simp]: "truthy (canEdit1 user)"
  by (simp add: truthy_def canEdit1_def)

lemma find_participant_Some [simp]:
  "find_participant (Some u) ps = Inr (find (\<lambda>p. u_id u = participant p) ps)"
  by (simp add: find_participant_def)

lemma find_participant_index_Some [simp]:
  "find_participant_index (Some u) ps = Inr (findIndex (\<lambda>p. u_id u = participant p) ps)"
  by (simp add: find_participant_index_def)

lemmas fixtures =
  group1_def alice_def bob_def dave_def event1_def event2_def b0_def list1_def db1_def env1_def
  body1_def msg1_def entries1_def lbody1_def

subsection \<open>The authorization gate of the handlers\<close>

text \<open>
  C1. The claim: when the governing predicate (\<open>canView\<close> for show and join, \<open>canEdit\<close>
  for update and cancel) is false for the actor and the stored event, the handler answers
  403 and the event is neither returned nor modified. The handlers test the value of
  \<open>canView(req.user)\<close> and \<open>canEdit(req.user)\<close>, which is a function waiting for the event
  and therefore truthy, so the gate never refuses. On the store \<open>db1\<close>, for the actor
  \<open>bob\<close>, who may neither view nor edit the restricted event \<open>e1\<close>, show answers 200 with
  the event, update answers 200 and overwrites the stored name, cancel answers 200 and
  cancels the event, and join adds \<open>bob\<close> to the participants.
\<close>
theorem gate_passes_unauthorized_actor:
  "canView (Some bob) (populate (groupDocs db1) event1) = False \<and>
   canEdit (Some bob) (populate (groupDocs db1) event1) = Inr False \<and>
   findById ''e1'' db1 = Some event1 \<and>
   show_event env1 (Some bob) ''e1'' db1 =
     (Respond 200 (EventJson (Populated (populate (groupDocs db1) event1))), db1) \<and>
   fst (update env1 (Some bob) ''e1'' (b0\<lparr>b_name := Some ''Taken over''\<rparr>) db1) =
     Respond 200 (EventJson (Populated (populate (groupDocs db1) (event1\<lparr>e_name := Some ''Taken over''\<rparr>)))) \<and>
   findById ''e1'' (snd (update env1 (Some bob) ''e1'' (b0\<lparr>b_name := Some ''Taken over''\<rparr>) db1)) =
     Some (event1\<lparr>e_name := Some ''Taken over''\<rparr>) \<and>
   fst (cancel env1 (Some bob) ''e1'' db1) =
     Respond 200 (EventJson (Populated (populate (groupDocs db1) (event1\<lparr>canceled := True\<rparr>)))) \<and>
   findById ''e1'' (snd (cancel env1 (Some bob) ''e1'' db1)) = Some (event1\<lparr>canceled := True\<rparr>) \<and>
   findById ''e1'' (snd (join env1 (Some bob) ''e1'' db1)) =
     Some (event1\<lparr>participants := participants event1 @
             [\<lparr>participant = ''bob'', p_datetime = clock env1 0\<rparr>]\<rparr>)"
  by (simp add: fixtures populate_def List.map_filter_def restriction_list_def restricted_def
      canView_def canEdit_def administers_def findById_def show_event_def update_def cancel_def
      join_def truthy_def canView1_def canEdit1_def or_else_def truthy_str_def save_def Let_def)

subsection \<open>The predicates\<close>

text \<open>
  C2. For every user, present or absent, and every event: when \<open>groupRestriction\<close> is
  absent or empty, \<open>canView\<close> is true; when the event is restricted, \<open>canView\<close> is false
  for an absent user, and for a present user it is true exactly when the role is admin or
  curator, or the user is the administrator of a restricting group, or the user's groups
  contain the identifier of a restricting group.
\<close>
theorem canView_spec:
  "(groupRestriction e = None \<or> groupRestriction e = Some [] \<longrightarrow> canView user e) \<and>
   (groupRestriction e = Some gs \<and> gs \<noteq> [] \<longrightarrow>
      \<not> canView None e \<and>
      (canView (Some u) e \<longleftrightarrow>
         role u = ''admin'' \<or> role u = ''curator'' \<or>
         (\<exists>g \<in> set gs. administrator g = Some (u_id u)) \<or>
         (\<exists>g \<in> set gs. g_id g \<in> set (groups u))))"
proof (intro conjI impI)
  assume "groupRestriction e = None \<or> groupRestriction e = Some []"
  then have "\<not> restricted e" by (auto simp: restricted_def)
  then show "canView user e" by (cases user) (simp_all add: canView_def Let_def)
next
  assume h: "groupRestriction e = Some gs \<and> gs \<noteq> []"
  then have r: "restricted e" by (simp add: restricted_def)
  then show "\<not> canView None e" by (simp add: canView_def)
  have adm: "\<And>g. administers u g = (administrator g = Some (u_id u))"
    by (auto simp: administers_def split: option.splits)
  from h r show "canView (Some u) e \<longleftrightarrow>
         role u = ''admin'' \<or> role u = ''curator'' \<or>
         (\<exists>g \<in> set gs. administrator g = Some (u_id u)) \<or>
         (\<exists>g \<in> set gs. g_id g \<in> set (groups u))"
    by (auto simp: canView_def Let_def find_ex_Some_iff find_eq_None_iff adm restriction_list_Some)
qed

theorem canView_spec_witness:
  "canView None (populate [group1] event2) \<and>
   \<not> canView None (populate [group1] event1) \<and>
   canView (Some dave) (populate [group1] event1) \<and>
   \<not> canView (Some bob) (populate [group1] event1)"
  using canView_spec [where e = "populate [group1] event2" and gs = "[group1]" and user = None and u = dave]
        canView_spec [where e = "populate [group1] event1" and gs = "[group1]" and user = None and u = dave]
        canView_spec [where e = "populate [group1] event1" and gs = "[group1]" and user = None and u = bob]
  by (simp add: fixtures populate_def List.map_filter_def)

text \<open>
  C3, as stated: with an absent user \<open>canEdit\<close> returns false. It does not: it raises a
  TypeError, here on the populated event \<open>e1\<close>.
\<close>
theorem canEdit_absent_user_counterexample:
  "canEdit None (populate [group1] event1) = Inl TypeError \<and>
   canEdit None (populate [group1] event1) \<noteq> Inr False"
  by (simp add: canEdit_def)

text \<open>
  C3, amended. For every event, \<open>canEdit\<close> with an absent user raises a TypeError and
  returns no value; with a present user it returns true exactly when the role is admin or
  curator, or the user is the event's creator, or the user is the administrator of a group
  in the event's \<open>groupRestriction\<close>.
\<close>
theorem canEdit_spec:
  "canEdit None e = Inl TypeError \<and>
   canEdit (Some u) e =
     Inr (role u = ''admin'' \<or> role u = ''curator'' \<or> creator e = u_id u \<or>
          (\<exists>g \<in> set (restriction_list e). administrator g = Some (u_id u)))"
proof -
  have adm: "\<And>g. administers u g = (administrator g = Some (u_id u))"
    by (auto simp: administers_def split: option.splits)
  show ?thesis
    by (simp add: canEdit_def Let_def find_ex_Some_iff find_eq_None_iff adm)
qed

theorem canEdit_spec_witness:
  "canEdit None (populate [group1] event1) = Inl TypeError \<and>
   canEdit (Some alice) (populate [group1] event1) = Inr True \<and>
   canEdit (Some bob) (populate [group1] event1) = Inr False"
  using canEdit_spec [where e = "populate [group1] event1" and u = alice]
        canEdit_spec [where e = "populate [group1] event1" and u = bob]
  by (simp add: fixtures populate_def List.map_filter_def restriction_list_def)

subsection \<open>Creation\<close>

text \<open>
  C4. For every body of a create request, also one that supplies \<open>participants\<close> and
  \<open>messages\<close>: when the body has a place, the store accepts the document and the
  identifier is new, the handler answers 201 and the persisted event has the actor as
  creator, exactly one participant entry, the creator's, stamped with the reading of the
  clock taken for it, and no message; whatever the outcome, the store is unchanged or has
  exactly one more event with these properties; and the response and the store do not
  depend on the \<open>participants\<close> and \<open>messages\<close> the client sent.
\<close>
theorem create_persists_creator_only:
  "(truthy_str (b_place body) \<and> createErr env = None \<and>
    findById (case b_id body of None \<Rightarrow> newId env | Some i \<Rightarrow> i) d = None \<longrightarrow>
      (\<exists>ev. create env (Some u) body d =
              (Respond 201 (EventJson (Unpopulated ev)), d\<lparr>events := events d @ [ev]\<rparr>) \<and>
            creator ev = u_id u \<and>
            participants ev = [\<lparr>participant = u_id u, p_datetime = clock env 1\<rparr>] \<and>
            messages ev = [] \<and> created ev = Some (clock env 0))) \<and>
   (snd (create env (Some u) body d) = d \<or>
      (\<exists>ev. events (snd (create env (Some u) body d)) = events d @ [ev] \<and>
            creator ev = u_id u \<and>
            participants ev = [\<lparr>participant = u_id u, p_datetime = clock env 1\<rparr>] \<and>
            messages ev = [])) \<and>
   create env (Some u) (body\<lparr>b_participants := ps, b_messages := ms\<rparr>) d =
     create env (Some u) body d"
proof (intro conjI impI)
  assume h: "truthy_str (b_place body) \<and> createErr env = None \<and>
    findById (case b_id body of None \<Rightarrow> newId env | Some i \<Rightarrow> i) d = None"
  then obtain p where p: "b_place body = Some p"
    by (cases "b_place body") (auto simp: truthy_str_def)
  with h show "\<exists>ev. create env (Some u) body d =
              (Respond 201 (EventJson (Unpopulated ev)), d\<lparr>events := events d @ [ev]\<rparr>) \<and>
            creator ev = u_id u \<and>
            participants ev = [\<lparr>participant = u_id u, p_datetime = clock env 1\<rparr>] \<and>
            messages ev = [] \<and> created ev = Some (clock env 0)"
    by (simp add: create_def Event_create_def Let_def)
next
  show "snd (create env (Some u) body d) = d \<or>
      (\<exists>ev. events (snd (create env (Some u) body d)) = events d @ [ev] \<and>
            creator ev = u_id u \<and>
            participants ev = [\<lparr>participant = u_id u, p_datetime = clock env 1\<rparr>] \<and>
            messages ev = [])"
    by (auto simp: create_def Event_create_def Let_def split: option.splits)
next
  show "create env (Some u) (body\<lparr>b_participants := ps, b_messages := ms\<rparr>) d =
     create env (Some u) body d"
    by (simp add: create_def)
qed

theorem create_persists_creator_only_witness:
  "(truthy_str (b_place body1) \<and> createErr env1 = None \<and>
    findById (case b_id body1 of None \<Rightarrow> newId env1 | Some i \<Rightarrow> i) db1 = None) \<and>
   (\<exists>ev. create env1 (Some bob) body1 db1 =
           (Respond 201 (EventJson (Unpopulated ev)), db1\<lparr>events := events db1 @ [ev]\<rparr>) \<and>
         creator ev = u_id bob \<and>
         participants ev = [\<lparr>participant = u_id bob, p_datetime = clock env1 1\<rparr>] \<and>
         messages ev = [] \<and> created ev = Some (clock env1 0))"
proof -
  have h: "truthy_str (b_place body1) \<and> createErr env1 = None \<and>
    findById (case b_id body1 of None \<Rightarrow> newId env1 | Some i \<Rightarrow> i) db1 = None"
    by (simp add: fixtures truthy_str_def findById_def)
  note t = create_persists_creator_only [where body = body1 and env = env1 and d = db1 and u = bob]
  from h t [THEN conjunct1, THEN mp, OF h] show ?thesis by (rule conjI)
qed

subsection \<open>Participation\<close>

lemma once_all_events: "snd (all_events env user d) = d"
  by (simp add: all_events_def Let_def split: option.splits)

lemma once_index: "snd (index env user p d) = d"
  by (simp add: index_def Let_def split: option.splits)

lemma once_show: "snd (show_event env user i d) = d"
  by (simp add: show_event_def split: option.splits)

lemma once_create:
  "all_participants_once d \<Longrightarrow> all_participants_once (snd (create env user body d))"
  by (auto simp: create_def Event_create_def Let_def all_participants_once_def
      participants_once_def split: option.splits)

lemma once_update:
  assumes "all_participants_once d"
  shows "all_participants_once (snd (update env user i body d))"
proof (cases "findById i d")
  case None
  with assms show ?thesis by (simp add: update_def Let_def split: option.splits)
next
  case (Some stored)
  let ?b = "body\<lparr>b_id := None, b_participants := None, b_messages := None\<rparr>"
  let ?ev = "stored\<lparr> e_name := or_else (b_name ?b) (e_name stored),
                          e_datetime := or_else (b_datetime ?b) (e_datetime stored),
                          e_meetupTime := or_else (b_meetupTime ?b) (e_meetupTime stored),
                          e_meetupPlace := or_else (b_meetupPlace ?b) (e_meetupPlace stored),
                          groupRestriction :=
                            (case b_groupRestriction ?b of
                               None \<Rightarrow> groupRestriction stored
                             | Some ids \<Rightarrow> Some ids) \<rparr>"
  from assms Some have "participants_once stored" by (rule once_stored)
  then have "participants_once ?ev" by (simp add: participants_once_def)
  with assms have "all_participants_once (save ?ev d)" by (rule once_save)
  with assms Some show ?thesis
    by (simp add: update_def Let_def split: option.splits)
qed

lemma once_cancel:
  assumes "all_participants_once d"
  shows "all_participants_once (snd (cancel env user i d))"
proof (cases "findById i d")
  case None
  with assms show ?thesis by (simp add: cancel_def split: option.splits)
next
  case (Some stored)
  from assms Some have "participants_once stored" by (rule once_stored)
  then have "participants_once (stored\<lparr>canceled := True\<rparr>)" by (simp add: participants_once_def)
  with assms have "all_participants_once (save (stored\<lparr>canceled := True\<rparr>) d)" by (rule once_save)
  with assms Some show ?thesis
    by (simp add: cancel_def Let_def split: option.splits)
qed

lemma once_join:
  assumes "all_participants_once d"
  shows "all_participants_once (snd (join env user i d))"
proof (cases "findById i d")
  case None
  with assms show ?thesis by (simp add: join_def split: option.splits)
next
  case (Some stored)
  show ?thesis
  proof (cases user)
    case None
    with assms Some show ?thesis
      by (simp add: join_def find_participant_def split: option.splits)
  next
    case u: (Some u)
    let ?ev = "stored\<lparr>participants := participants stored @
                 [\<lparr>participant = u_id u, p_datetime = clock env 0\<rparr>]\<rparr>"
    from assms Some have st: "participants_once stored" by (rule once_stored)
    show ?thesis
    proof (cases "find (\<lambda>p. u_id u = participant p) (participants stored)")
      case (Some p)
      with assms \<open>findById i d = Some stored\<close> u show ?thesis
        by (simp add: join_def split: option.splits)
    next
      case None
      then have "u_id u \<notin> participant ` set (participants stored)"
        by (simp add: find_None_participant)
      with st have "participants_once ?ev" by (simp add: participants_once_def)
      with assms have "all_participants_once (save ?ev d)" by (rule once_save)
      with assms None \<open>findById i d = Some stored\<close> u show ?thesis
        by (simp add: join_def Let_def split: option.splits)
    qed
  qed
qed

lemma once_unjoin:
  assumes "all_participants_once d"
  shows "all_participants_once (snd (unjoin env user i d))"
proof (cases "findById i d")
  case None
  with assms show ?thesis by (simp add: unjoin_def split: option.splits)
next
  case (Some stored)
  from assms Some have st: "participants_once stored" by (rule once_stored)
  have "\<And>k. all_participants_once (save (stored\<lparr>participants := splice1 k (participants stored)\<rparr>) d)"
    using assms st by (intro once_save) (simp_all add: participants_once_def distinct_splice1)
  with assms Some show ?thesis
    by (simp add: unjoin_def Let_def split: option.splits sum.splits)
qed

lemma once_message:
  assumes "all_participants_once d"
  shows "all_participants_once (snd (message env user i body d))"
proof (cases "findById i d")
  case None
  with assms show ?thesis by (simp add: message_def split: option.splits)
next
  case (Some stored)
  from assms Some have st: "participants_once stored" by (rule once_stored)
  have "\<And>ms. all_participants_once (save (stored\<lparr>messages := ms\<rparr>) d)"
    using assms st by (intro once_save) (simp_all add: participants_once_def)
  with assms Some show ?thesis
    by (simp add: message_def Let_def split: option.splits sum.splits)
qed

lemma once_lists_update:
  "all_participants_once d \<Longrightarrow> all_participants_once (snd (lists_update env i body d))"
  by (simp add: lists_update_def Let_def split: option.splits)

lemma once_handle:
  "all_participants_once d \<Longrightarrow> all_participants_once (snd (handle env user req d))"
  by (cases req)
     (simp_all add: once_all_events once_index once_show once_create once_update once_cancel
        once_join once_unjoin once_message once_lists_update)

text \<open>
  C5. Every user appears at most once in the participants of every stored event, and
  every handler preserves this, whatever the request, the actor and the answers of the
  store. A join by an actor who is already a participant is answered 403 with the message
  ``You have already joined this event.'' and leaves the store unchanged; a join by an
  actor who is not yet one appends exactly one entry for the actor, stamped with the
  clock, and answers 200 with the event.
\<close>
theorem participants_once_preserved:
  "(all_participants_once d \<longrightarrow> all_participants_once (snd (handle env user req d))) \<and>
   (findErr env = None \<and> findById i d = Some stored \<and>
    u_id u \<in> participant ` set (participants stored) \<longrightarrow>
      join env (Some u) i d =
        (Respond 403 (Message ''You have already joined this event.''), d)) \<and>
   (findErr env = None \<and> findById i d = Some stored \<and>
    u_id u \<notin> participant ` set (participants stored) \<and> saveErr env = None \<longrightarrow>
      findById i (snd (join env (Some u) i d)) =
        Some (stored\<lparr>participants := participants stored @
                [\<lparr>participant = u_id u, p_datetime = clock env 0\<rparr>]\<rparr>) \<and>
      (populateErr env = None \<longrightarrow>
         fst (join env (Some u) i d) =
           Respond 200 (EventJson (Populated (populate (groupDocs d)
             (stored\<lparr>participants := participants stored @
                [\<lparr>participant = u_id u, p_datetime = clock env 0\<rparr>]\<rparr>))))))"
proof (intro conjI impI)
  assume "all_participants_once d"
  then show "all_participants_once (snd (handle env user req d))" by (rule once_handle)
next
  assume h: "findErr env = None \<and> findById i d = Some stored \<and>
    u_id u \<in> participant ` set (participants stored)"
  then obtain p where "find (\<lambda>p. u_id u = participant p) (participants stored) = Some p"
    using find_None_participant [of "u_id u" "participants stored"] by auto
  with h show "join env (Some u) i d =
        (Respond 403 (Message ''You have already joined this event.''), d)"
    by (simp add: join_def)
next
  let ?ev = "stored\<lparr>participants := participants stored @
                [\<lparr>participant = u_id u, p_datetime = clock env 0\<rparr>]\<rparr>"
  assume h: "findErr env = None \<and> findById i d = Some stored \<and>
    u_id u \<notin> participant ` set (participants stored) \<and> saveErr env = None"
  then have n: "find (\<lambda>p. u_id u = participant p) (participants stored) = None"
    by (simp add: find_None_participant)
  from h have s: "findById i (save ?ev d) = Some ?ev" by (simp add: findById_save)
  from h n s show "findById i (snd (join env (Some u) i d)) = Some ?ev"
    by (simp add: join_def Let_def split: option.splits)
  assume "populateErr env = None"
  with h n show "fst (join env (Some u) i d) =
      Respond 200 (EventJson (Populated (populate (groupDocs d) ?ev)))"
    by (simp add: join_def Let_def save_other_fields)
qed

theorem participants_once_preserved_witness:
  "all_participants_once db1 \<and>
   all_participants_once (snd (handle env1 (Some bob) (ReqJoin ''e1'') db1)) \<and>
   (findErr env1 = None \<and> findById ''e1'' db1 = Some event1 \<and>
    u_id alice \<in> participant ` set (participants event1)) \<and>
   join env1 (Some alice) ''e1'' db1 =
     (Respond 403 (Message ''You have already joined this event.''), db1) \<and>
   (findErr env1 = None \<and> findById ''e1'' db1 = Some event1 \<and>
    u_id bob \<notin> participant ` set (participants event1) \<and> saveErr env1 = None) \<and>
   findById ''e1'' (snd (join env1 (Some bob) ''e1'' db1)) =
     Some (event1\<lparr>participants := participants event1 @
             [\<lparr>participant = u_id bob, p_datetime = clock env1 0\<rparr>]\<rparr>)"
proof -
  have h1: "all_participants_once db1"
    by (simp add: fixtures all_participants_once_def participants_once_def)
  have h2: "findErr env1 = None \<and> findById ''e1'' db1 = Some event1 \<and>
    u_id alice \<in> participant ` set (participants event1)"
    by (simp add: fixtures findById_def)
  have h3: "findErr env1 = None \<and> findById ''e1'' db1 = Some event1 \<and>
    u_id bob \<notin> participant ` set (participants event1) \<and> saveErr env1 = None"
    by (simp add: fixtures findById_def)
  note a = participants_once_preserved [where d = db1 and env = env1 and user = "Some bob"
      and req = "ReqJoin ''e1''" and i = "''e1''" and stored = event1 and u = alice]
  note b = participants_once_preserved [where d = db1 and env = env1 and user = "Some bob"
      and req = "ReqJoin ''e1''" and i = "''e1''" and stored = event1 and u = bob]
  note c1 = a [THEN conjunct1, THEN mp, OF h1]
  note c2 = a [THEN conjunct2, THEN conjunct1, THEN mp, OF h2]
  note c3 = b [THEN conjunct2, THEN conjunct2, THEN mp, OF h3, THEN conjunct1]
  from h1 c1 h2 c2 h3 c3 show ?thesis by blast
qed

text \<open>
  C6. For every stored event: an unjoin by an actor who is not a participant is answered
  403 with the message ``You have not joined this event.'' and leaves the store unchanged;
  an unjoin by a participant removes the first entry of the actor and keeps the entries
  before and after it, in their order. When the actor appears once, as the invariant of
  C5 gives, what remains is every entry of the other users, and one entry fewer.
\<close>
theorem unjoin_removes_own_entry:
  "(findErr env = None \<and> findById i d = Some stored \<and>
    u_id u \<notin> participant ` set (participants stored) \<longrightarrow>
      unjoin env (Some u) i d = (Respond 403 (Message ''You have not joined this event.''), d)) \<and>
   (findErr env = None \<and> findById i d = Some stored \<and>
    u_id u \<in> participant ` set (participants stored) \<and> saveErr env = None \<longrightarrow>
      (\<exists>pre p post.
         participants stored = pre @ p # post \<and> participant p = u_id u \<and>
         u_id u \<notin> participant ` set pre \<and>
         findById i (snd (unjoin env (Some u) i d)) =
           Some (stored\<lparr>participants := pre @ post\<rparr>) \<and>
         (participants_once stored \<longrightarrow>
            pre @ post = filter (\<lambda>q. participant q \<noteq> u_id u) (participants stored) \<and>
            length (pre @ post) + 1 = length (participants stored)) \<and>
         (populateErr env = None \<longrightarrow>
            fst (unjoin env (Some u) i d) =
              Respond 200 (EventJson (Unpopulated (stored\<lparr>participants := pre @ post\<rparr>))))))"
proof (intro conjI impI)
  assume h: "findErr env = None \<and> findById i d = Some stored \<and>
    u_id u \<notin> participant ` set (participants stored)"
  then have "findIndex (\<lambda>p. u_id u = participant p) (participants stored) = None"
    by (auto simp: findIndex_None)
  with h show "unjoin env (Some u) i d =
      (Respond 403 (Message ''You have not joined this event.''), d)"
    by (simp add: unjoin_def)
next
  let ?ps = "participants stored"
  assume h: "findErr env = None \<and> findById i d = Some stored \<and>
    u_id u \<in> participant ` set (participants stored) \<and> saveErr env = None"
  then obtain k where k: "findIndex (\<lambda>p. u_id u = participant p) ?ps = Some k"
    using findIndex_None [of "\<lambda>p. u_id u = participant p" ?ps] by auto
  from findIndex_Some [OF k]
  have kl: "k < length ?ps" and kp: "participant (?ps ! k) = u_id u"
    and kb: "u_id u \<notin> participant ` set (take k ?ps)" by auto
  let ?pre = "take k ?ps" and ?post = "drop (Suc k) ?ps"
  let ?ev = "stored\<lparr>participants := ?pre @ ?post\<rparr>"
  from kl have sp: "?ps = ?pre @ ?ps ! k # ?post" by (rule id_take_nth_drop)
  from h have s: "findById i (save ?ev d) = Some ?ev" by (simp add: findById_save)
  from h k s have f: "findById i (snd (unjoin env (Some u) i d)) = Some ?ev"
    by (simp add: unjoin_def Let_def splice1_def split: option.splits)
  have o: "participants_once stored \<longrightarrow>
      ?pre @ ?post = filter (\<lambda>q. participant q \<noteq> u_id u) ?ps \<and>
      length (?pre @ ?post) + 1 = length ?ps"
  proof
    assume "participants_once stored"
    then have "distinct (map participant (?pre @ ?ps ! k # ?post))"
      using sp by (simp add: participants_once_def)
    from filter_others_distinct [OF this] kp sp kl
    show "?pre @ ?post = filter (\<lambda>q. participant q \<noteq> u_id u) ?ps \<and>
      length (?pre @ ?post) + 1 = length ?ps"
      by simp
  qed
  have r: "populateErr env = None \<longrightarrow>
      fst (unjoin env (Some u) i d) = Respond 200 (EventJson (Unpopulated ?ev))"
    using h k by (simp add: unjoin_def Let_def splice1_def)
  show "\<exists>pre p post.
         participants stored = pre @ p # post \<and> participant p = u_id u \<and>
         u_id u \<notin> participant ` set pre \<and>
         findById i (snd (unjoin env (Some u) i d)) =
           Some (stored\<lparr>participants := pre @ post\<rparr>) \<and>
         (participants_once stored \<longrightarrow>
            pre @ post = filter (\<lambda>q. participant q \<noteq> u_id u) (participants stored) \<and>
            length (pre @ post) + 1 = length (participants stored)) \<and>
         (populateErr env = None \<longrightarrow>
            fst (unjoin env (Some u) i d) =
              Respond 200 (EventJson (Unpopulated (stored\<lparr>participants := pre @ post\<rparr>))))"
  proof (intro exI conjI)
    show "participants stored = ?pre @ ?ps ! k # ?post" by (rule sp)
    show "participant (?ps ! k) = u_id u" by (rule kp)
    show "u_id u \<notin> participant ` set ?pre" by (rule kb)
    show "findById i (snd (unjoin env (Some u) i d)) = Some ?ev" by (rule f)
    show "participants_once stored \<longrightarrow>
      ?pre @ ?post = filter (\<lambda>q. participant q \<noteq> u_id u) ?ps \<and>
      length (?pre @ ?post) + 1 = length ?ps" by (rule o)
    show "populateErr env = None \<longrightarrow>
      fst (unjoin env (Some u) i d) = Respond 200 (EventJson (Unpopulated ?ev))" by (rule r)
  qed
qed

theorem unjoin_removes_own_entry_witness:
  "(findErr env1 = None \<and> findById ''e1'' db1 = Some event1 \<and>
    u_id bob \<notin> participant ` set (participants event1)) \<and>
   unjoin env1 (Some bob) ''e1'' db1 =
     (Respond 403 (Message ''You have not joined this event.''), db1) \<and>
   (findErr env1 = None \<and> findById ''e1'' db1 = Some event1 \<and>
    u_id alice \<in> participant ` set (participants event1) \<and> saveErr env1 = None) \<and>
   (\<exists>pre p post.
      participants event1 = pre @ p # post \<and> participant p = u_id alice \<and>
      u_id alice \<notin> participant ` set pre \<and>
      findById ''e1'' (snd (unjoin env1 (Some alice) ''e1'' db1)) =
        Some (event1\<lparr>participants := pre @ post\<rparr>) \<and>
      (participants_once event1 \<longrightarrow>
         pre @ post = filter (\<lambda>q. participant q \<noteq> u_id alice) (participants event1) \<and>
         length (pre @ post) + 1 = length (participants event1)) \<and>
      (populateErr env1 = None \<longrightarrow>
         fst (unjoin env1 (Some alice) ''e1'' db1) =
           Respond 200 (EventJson (Unpopulated (event1\<lparr>participants := pre @ post\<rparr>))))) \<and>
   participants_once event1 \<and>
   findById ''e1'' (snd (unjoin env1 (Some alice) ''e1'' db1)) =
     Some (event1\<lparr>participants :=
             [\<lparr>participant = ''dave'', p_datetime = ''2015-05-02T09:00:00.000Z''\<rparr>]\<rparr>)"
proof -
  have h1: "findErr env1 = None \<and> findById ''e1'' db1 = Some event1 \<and>
    u_id bob \<notin> participant ` set (participants event1)"
    by (simp add: fixtures findById_def)
  have h2: "findErr env1 = None \<and> findById ''e1'' db1 = Some event1 \<and>
    u_id alice \<in> participant ` set (participants event1) \<and> saveErr env1 = None"
    by (simp add: fixtures findById_def)
  have h3: "participants_once event1" by (simp add: fixtures participants_once_def)
  note a = unjoin_removes_own_entry [where d = db1 and env = env1 and i = "''e1''"
      and stored = event1 and u = bob]
  note b = unjoin_removes_own_entry [where d = db1 and env = env1 and i = "''e1''"
      and stored = event1 and u = alice]
  note c1 = a [THEN conjunct1, THEN mp, OF h1]
  note c2 = b [THEN conjunct2, THEN mp, OF h2]
  have c3: "findById ''e1'' (snd (unjoin env1 (Some alice) ''e1'' db1)) =
     Some (event1\<lparr>participants :=
             [\<lparr>participant = ''dave'', p_datetime = ''2015-05-02T09:00:00.000Z''\<rparr>]\<rparr>)"
  proof -
    from c2 h3 obtain pre post where
      f: "findById ''e1'' (snd (unjoin env1 (Some alice) ''e1'' db1)) =
            Some (event1\<lparr>participants := pre @ post\<rparr>)" and
      e: "pre @ post = filter (\<lambda>q. participant q \<noteq> u_id alice) (participants event1)"
      by blast
    have "filter (\<lambda>q. participant q \<noteq> u_id alice) (participants event1) =
        [\<lparr>participant = ''dave'', p_datetime = ''2015-05-02T09:00:00.000Z''\<rparr>]"
      by (simp add: fixtures)
    with f e show ?thesis by simp
  qed
  from h1 c1 h2 c2 h3 c3 show ?thesis by blast
qed

subsection \<open>Notifications\<close>

lemma cancel_notifications_users:
  "map n_user (cancel_notifications env ev event) = map participant (participants event)"
proof -
  have "n_user \<circ> (\<lambda>(k, uid).
            \<lparr> n_user = uid, n_datetime = clock env k,
              n_data = \<lparr> d_name = ''event.cancel'', d_event = ev,
                         d_when = Some (format_llll env (e_datetime event)),
                         d_text = None, d_poster = None \<rparr> \<rparr>) = snd"
    by (auto simp: fun_eq_iff)
  then show ?thesis by (simp add: cancel_notifications_def map_snd_enumerate)
qed

lemma cancel_notifications_name:
  "n \<in> set (cancel_notifications env ev event) \<Longrightarrow> d_name (n_data n) = ''event.cancel''"
  by (auto simp: cancel_notifications_def)

text \<open>
  C7. For every stored event with n participants, a cancel that the store saves answers
  200, leaves the event stored with \<open>canceled\<close> true and its participants and messages
  as they were, and hands exactly n notifications to \<open>Notification.create\<close>: one per
  participant, in order, addressed to that participant, each named \<open>event.cancel\<close>.
\<close>
theorem cancel_notifies_every_participant:
  "findErr env = None \<and> findById i d = Some stored \<and> saveErr env = None \<longrightarrow>
     fst (cancel env user i d) =
       Respond 200 (EventJson (Populated (populate (groupDocs d) (stored\<lparr>canceled := True\<rparr>)))) \<and>
     (\<exists>ev. findById i (snd (cancel env user i d)) = Some ev \<and> canceled ev \<and>
           participants ev = participants stored \<and> messages ev = messages stored) \<and>
     (\<exists>ns. submitted (snd (cancel env user i d)) = submitted d @ ns \<and>
           length ns = length (participants stored) \<and>
           map n_user ns = map participant (participants stored) \<and>
           (\<forall>n \<in> set ns. d_name (n_data n) = ''event.cancel''))"
proof (intro impI)
  let ?ev = "stored\<lparr>canceled := True\<rparr>"
  let ?ns = "cancel_notifications env (Populated (populate (groupDocs d) ?ev)) ?ev"
  assume h: "findErr env = None \<and> findById i d = Some stored \<and> saveErr env = None"
  then have c: "cancel env user i d =
      (Respond 200 (EventJson (Populated (populate (groupDocs d) ?ev))),
       (save ?ev d)\<lparr>submitted := submitted d @ ?ns\<rparr>)"
    by (simp add: cancel_def Let_def save_other_fields)
  from h have s: "findById i (save ?ev d) = Some ?ev" by (simp add: findById_save)
  have f: "findById i ((save ?ev d)\<lparr>submitted := submitted d @ ?ns\<rparr>) = Some ?ev"
    using s by (simp add: findById_def)
  show "fst (cancel env user i d) =
       Respond 200 (EventJson (Populated (populate (groupDocs d) ?ev))) \<and>
     (\<exists>ev. findById i (snd (cancel env user i d)) = Some ev \<and> canceled ev \<and>
           participants ev = participants stored \<and> messages ev = messages stored) \<and>
     (\<exists>ns. submitted (snd (cancel env user i d)) = submitted d @ ns \<and>
           length ns = length (participants stored) \<and>
           map n_user ns = map participant (participants stored) \<and>
           (\<forall>n \<in> set ns. d_name (n_data n) = ''event.cancel''))"
  proof (intro conjI)
    show "fst (cancel env user i d) =
       Respond 200 (EventJson (Populated (populate (groupDocs d) ?ev)))"
      by (simp add: c)
    show "\<exists>ev. findById i (snd (cancel env user i d)) = Some ev \<and> canceled ev \<and>
           participants ev = participants stored \<and> messages ev = messages stored"
      by (simp add: c f)
    show "\<exists>ns. submitted (snd (cancel env user i d)) = submitted d @ ns \<and>
           length ns = length (participants stored) \<and>
           map n_user ns = map participant (participants stored) \<and>
           (\<forall>n \<in> set ns. d_name (n_data n) = ''event.cancel'')"
    proof (intro exI conjI)
      show "submitted (snd (cancel env user i d)) = submitted d @ ?ns" by (simp add: c)
      show "length ?ns = length (participants stored)"
        by (simp add: cancel_notifications_def)
      show "map n_user ?ns = map participant (participants stored)"
        by (simp add: cancel_notifications_users)
      show "\<forall>n \<in> set ?ns. d_name (n_data n) = ''event.cancel''"
        by (simp add: cancel_notifications_name)
    qed
  qed
qed

theorem cancel_notifies_every_participant_witness:
  "(findErr env1 = None \<and> findById ''e1'' db1 = Some event1 \<and> saveErr env1 = None) \<and>
   fst (cancel env1 (Some alice) ''e1'' db1) =
     Respond 200 (EventJson (Populated (populate (groupDocs db1) (event1\<lparr>canceled := True\<rparr>)))) \<and>
   (\<exists>ev. findById ''e1'' (snd (cancel env1 (Some alice) ''e1'' db1)) = Some ev \<and> canceled ev \<and>
         participants ev = participants event1 \<and> messages ev = messages event1) \<and>
   (\<exists>ns. submitted (snd (cancel env1 (Some alice) ''e1'' db1)) = submitted db1 @ ns \<and>
         length ns = length (participants event1) \<and>
         map n_user ns = map participant (participants event1) \<and>
         (\<forall>n \<in> set ns. d_name (n_data n) = ''event.cancel'')) \<and>
   map n_user (submitted (snd (cancel env1 (Some alice) ''e1'' db1))) = [''alice'', ''dave'']"
proof -
  have h: "findErr env1 = None \<and> findById ''e1'' db1 = Some event1 \<and> saveErr env1 = None"
    by (simp add: fixtures findById_def)
  note a = cancel_notifies_every_participant [where d = db1 and env = env1 and i = "''e1''"
      and stored = event1 and user = "Some alice", THEN mp, OF h]
  have c: "map n_user (submitted (snd (cancel env1 (Some alice) ''e1'' db1))) = [''alice'', ''dave'']"
  proof -
    from a obtain ns where
      "submitted (snd (cancel env1 (Some alice) ''e1'' db1)) = submitted db1 @ ns"
      "map n_user ns = map participant (participants event1)"
      by blast
    then show ?thesis by (simp add: fixtures)
  qed
  from h a c show ?thesis by (intro conjI) blast+
qed

lemma message_notifications_users:
  "map n_user (message_notifications env u txt ev event) =
     filter (\<lambda>uid. uid \<noteq> u_id u) (map participant (participants event))"
proof -
  have "n_user \<circ> (\<lambda>(k, uid).
            \<lparr> n_user = uid, n_datetime = clock env k,
              n_data = \<lparr> d_name = ''event.message'', d_event = ev, d_when = None,
                         d_text = txt, d_poster = Some u \<rparr> \<rparr>) = snd"
    by (auto simp: fun_eq_iff)
  moreover have "(\<lambda>uid. \<not> (u_id u = uid)) = (\<lambda>uid. uid \<noteq> u_id u)" by auto
  ultimately show ?thesis by (simp add: message_notifications_def map_snd_enumerate)
qed

lemma message_notifications_data:
  "n \<in> set (message_notifications env u txt ev event) \<Longrightarrow>
   d_name (n_data n) = ''event.message'' \<and> d_text (n_data n) = txt \<and>
   d_poster (n_data n) = Some u"
  by (auto simp: message_notifications_def)

text \<open>
  C8. For every stored event with n participants: a message by an actor who is not a
  participant is answered 403 with the message ``You must be attending this event to send
  messages.'' and leaves the store unchanged; a message by a participant appends exactly
  one message, the body with the actor as poster and the clock's reading as datetime, and
  hands to \<open>Notification.create\<close> one notification per participant entry of another
  user, each with the text and the poster. Their number is n less the number of entries of
  the poster: n - 1 when the poster appears once, as the invariant of C5 gives.
\<close>
theorem message_notifies_other_participants:
  "(findErr env = None \<and> findById i d = Some stored \<and>
    u_id u \<notin> participant ` set (participants stored) \<longrightarrow>
      message env (Some u) i body d =
        (Respond 403 (Message ''You must be attending this event to send messages.''), d)) \<and>
   (findErr env = None \<and> findById i d = Some stored \<and>
    u_id u \<in> participant ` set (participants stored) \<and> saveErr env = None \<longrightarrow>
      findById i (snd (message env (Some u) i body d)) =
        Some (stored\<lparr>messages := messages stored @
                [body\<lparr>mb_datetime := Some (clock env 0), mb_poster := Some (u_id u)\<rparr>]\<rparr>) \<and>
      (\<exists>ns. submitted (snd (message env (Some u) i body d)) = submitted d @ ns \<and>
            map n_user ns =
              filter (\<lambda>uid. uid \<noteq> u_id u) (map participant (participants stored)) \<and>
            (\<forall>n \<in> set ns. d_name (n_data n) = ''event.message'' \<and>
               d_text (n_data n) = mb_text body \<and> d_poster (n_data n) = Some u) \<and>
            length ns + length (filter (\<lambda>p. participant p = u_id u) (participants stored)) =
              length (participants stored) \<and>
            (participants_once stored \<longrightarrow> length ns = length (participants stored) - 1)) \<and>
      (populateErr env = None \<longrightarrow>
         fst (message env (Some u) i body d) =
           Respond 200 (EventJson (Unpopulated (stored\<lparr>messages := messages stored @
                [body\<lparr>mb_datetime := Some (clock env 0), mb_poster := Some (u_id u)\<rparr>]\<rparr>)))))"
proof (intro conjI impI)
  assume h: "findErr env = None \<and> findById i d = Some stored \<and>
    u_id u \<notin> participant ` set (participants stored)"
  then have "find (\<lambda>p. u_id u = participant p) (participants stored) = None"
    by (simp add: find_None_participant)
  with h show "message env (Some u) i body d =
        (Respond 403 (Message ''You must be attending this event to send messages.''), d)"
    by (simp add: message_def)
next
  let ?ps = "participants stored"
  let ?b = "body\<lparr>mb_datetime := Some (clock env 0), mb_poster := Some (u_id u)\<rparr>"
  let ?ev = "stored\<lparr>messages := messages stored @ [?b]\<rparr>"
  let ?ns = "message_notifications env u (mb_text body) (Unpopulated ?ev) ?ev"
  assume h: "findErr env = None \<and> findById i d = Some stored \<and>
    u_id u \<in> participant ` set (participants stored) \<and> saveErr env = None"
  then obtain p where p: "find (\<lambda>p. u_id u = participant p) ?ps = Some p"
    using find_None_participant [of "u_id u" ?ps] by auto
  from h have s: "findById i (save ?ev d) = Some ?ev" by (simp add: findById_save)
  have d': "snd (message env (Some u) i body d) = (save ?ev d)\<lparr>submitted := submitted d @ ?ns\<rparr>"
    using h p by (simp add: message_def Let_def save_other_fields split: option.splits)
  show "findById i (snd (message env (Some u) i body d)) = Some ?ev"
    using s by (simp add: d' findById_def)
  have users: "map n_user ?ns = filter (\<lambda>uid. uid \<noteq> u_id u) (map participant ?ps)"
    by (simp add: message_notifications_users)
  have len: "length ?ns = length (filter (\<lambda>uid. uid \<noteq> u_id u) (map participant ?ps))"
    using users by (metis length_map)
  show "\<exists>ns. submitted (snd (message env (Some u) i body d)) = submitted d @ ns \<and>
            map n_user ns = filter (\<lambda>uid. uid \<noteq> u_id u) (map participant ?ps) \<and>
            (\<forall>n \<in> set ns. d_name (n_data n) = ''event.message'' \<and>
               d_text (n_data n) = mb_text body \<and> d_poster (n_data n) = Some u) \<and>
            length ns + length (filter (\<lambda>p. participant p = u_id u) ?ps) = length ?ps \<and>
            (participants_once stored \<longrightarrow> length ns = length ?ps - 1)"
  proof (intro exI conjI)
    show "submitted (snd (message env (Some u) i body d)) = submitted d @ ?ns"
      by (simp add: d')
    show "map n_user ?ns = filter (\<lambda>uid. uid \<noteq> u_id u) (map participant ?ps)"
      by (rule users)
    show "\<forall>n \<in> set ?ns. d_name (n_data n) = ''event.message'' \<and>
               d_text (n_data n) = mb_text body \<and> d_poster (n_data n) = Some u"
      using message_notifications_data by blast
    have "length (filter (\<lambda>uid. uid \<noteq> u_id u) (map participant ?ps)) +
          length (filter (\<lambda>uid. uid = u_id u) (map participant ?ps)) = length ?ps"
      using sum_length_filter_compl [of "\<lambda>uid. uid \<noteq> u_id u" "map participant ?ps"] by simp
    moreover have "length (filter (\<lambda>uid. uid = u_id u) (map participant ?ps)) =
        length (filter (\<lambda>p. participant p = u_id u) ?ps)"
      by (simp add: filter_map comp_def)
    ultimately show "length ?ns + length (filter (\<lambda>p. participant p = u_id u) ?ps) = length ?ps"
      using len by simp
    show "participants_once stored \<longrightarrow> length ?ns = length ?ps - 1"
    proof
      assume "participants_once stored"
      then have "distinct (map participant ?ps)" by (simp add: participants_once_def)
      moreover from h have "u_id u \<in> set (map participant ?ps)" by simp
      ultimately show "length ?ns = length ?ps - 1"
        using length_filter_others [of "map participant ?ps" "u_id u"] len by simp
    qed
  qed
  assume "populateErr env = None"
  with h p show "fst (message env (Some u) i body d) = Respond 200 (EventJson (Unpopulated ?ev))"
    by (simp add: message_def Let_def)
qed

theorem message_notifies_other_participants_witness:
  "(findErr env1 = None \<and> findById ''e1'' db1 = Some event1 \<and>
    u_id bob \<notin> participant ` set (participants event1)) \<and>
   message env1 (Some bob) ''e1'' msg1 db1 =
     (Respond 403 (Message ''You must be attending this event to send messages.''), db1) \<and>
   (findErr env1 = None \<and> findById ''e1'' db1 = Some event1 \<and>
    u_id alice \<in> participant ` set (participants event1) \<and> saveErr env1 = None) \<and>
   participants_once event1 \<and>
   findById ''e1'' (snd (message env1 (Some alice) ''e1'' msg1 db1)) =
     Some (event1\<lparr>messages := messages event1 @
             [msg1\<lparr>mb_datetime := Some (clock env1 0), mb_poster := Some (u_id alice)\<rparr>]\<rparr>) \<and>
   (\<exists>ns. submitted (snd (message env1 (Some alice) ''e1'' msg1 db1)) = submitted db1 @ ns \<and>
         map n_user ns = [''dave''] \<and> length ns = length (participants event1) - 1)"
proof -
  have h1: "findErr env1 = None \<and> findById ''e1'' db1 = Some event1 \<and>
    u_id bob \<notin> participant ` set (participants event1)"
    by (simp add: fixtures findById_def)
  have h2: "findErr env1 = None \<and> findById ''e1'' db1 = Some event1 \<and>
    u_id alice \<in> participant ` set (participants event1) \<and> saveErr env1 = None"
    by (simp add: fixtures findById_def)
  have h3: "participants_once event1" by (simp add: fixtures participants_once_def)
  note a = message_notifies_other_participants [where d = db1 and env = env1 and i = "''e1''"
      and stored = event1 and u = bob and body = msg1]
  note b = message_notifies_other_participants [where d = db1 and env = env1 and i = "''e1''"
      and stored = event1 and u = alice and body = msg1]
  note c1 = a [THEN conjunct1, THEN mp, OF h1]
  note c2 = b [THEN conjunct2, THEN mp, OF h2]
  note c3 = c2 [THEN conjunct1]
  have c4: "\<exists>ns. submitted (snd (message env1 (Some alice) ''e1'' msg1 db1)) = submitted db1 @ ns \<and>
         map n_user ns = [''dave''] \<and> length ns = length (participants event1) - 1"
  proof -
    from c2 h3 obtain ns where
      n: "submitted (snd (message env1 (Some alice) ''e1'' msg1 db1)) = submitted db1 @ ns"
         "map n_user ns = filter (\<lambda>uid. uid \<noteq> u_id alice) (map participant (participants event1))"
         "length ns = length (participants event1) - 1"
      by blast
    have "filter (\<lambda>uid. uid \<noteq> u_id alice) (map participant (participants event1)) = [''dave'']"
      by (simp add: fixtures)
    with n show ?thesis by simp
  qed
  from h1 c1 h2 h3 c3 c4 show ?thesis by blast
qed

subsection \<open>Lists\<close>

lemma unpopulate_entry_idem: "unpopulate_entry (unpopulate_entry e) = unpopulate_entry e"
  by (simp add: unpopulate_entry_def truthy_str_def split: option.splits place_value.splits)

lemma unpopulate_entry_has_id: "place_has_id e \<Longrightarrow> place_is_reference (unpopulate_entry e)"
  by (cases "en_place e")
     (auto simp: unpopulate_entry_def place_is_reference_def place_has_id_def truthy_str_def
        split: option.splits place_value.splits)

lemma unpopulate_entry_reference: "place_is_reference e \<Longrightarrow> unpopulate_entry e = e"
  by (simp add: unpopulate_entry_def place_is_reference_def
      split: option.splits place_value.splits)

text \<open>
  C9. For every update request of a list whose body has entries: the saved list holds the
  entries after the replacement; each entry whose place is a populated object with an
  identifier in \<open>_id\<close> has that identifier as its place, everything else of the entry
  kept; an entry that already refers by identifier is unchanged; when every populated
  place carries an identifier, every saved entry refers by identifier; and the replacement
  is the identity on entries that refer by identifier and idempotent on all.
\<close>
theorem lists_update_unpopulates:
  "(lb_entries body = Some es \<and> findErr env = None \<and>
    find (\<lambda>l. l_id l = i) (listDocs d) = Some stored \<and> saveErr env = None \<longrightarrow>
      (\<exists>saved. find (\<lambda>l. l_id l = i) (listDocs (snd (lists_update env i body d))) = Some saved \<and>
             l_entries saved = map unpopulate_entry es)) \<and>
   length (map unpopulate_entry es) = length es \<and>
   (k < length es \<and> en_place (es ! k) = Some (PlaceObject (Some pid) rest) \<and> pid \<noteq> [] \<longrightarrow>
      map unpopulate_entry es ! k = (es ! k)\<lparr>en_place := Some (PlaceId pid)\<rparr>) \<and>
   (k < length es \<and> place_is_reference (es ! k) \<longrightarrow> map unpopulate_entry es ! k = es ! k) \<and>
   (list_all place_has_id es \<longrightarrow> list_all place_is_reference (map unpopulate_entry es)) \<and>
   (list_all place_is_reference es \<longrightarrow> map unpopulate_entry es = es) \<and>
   map unpopulate_entry (map unpopulate_entry es) = map unpopulate_entry es"
proof (intro conjI impI)
  assume h: "lb_entries body = Some es \<and> findErr env = None \<and>
    find (\<lambda>l. l_id l = i) (listDocs d) = Some stored \<and> saveErr env = None"
  let ?l = "stored\<lparr>l_entries := map unpopulate_entry es, l_name := or_else (lb_name body) (l_name stored)\<rparr>"
  have rep: "\<And>xs. find (\<lambda>l. l_id l = i) xs = Some stored \<Longrightarrow>
      find (\<lambda>l. l_id l = i) (map (\<lambda>x. if l_id x = l_id stored then ?l else x) xs) = Some ?l"
    subgoal for xs by (induction xs) (auto split: if_splits)
    done
  from h have r: "find (\<lambda>l. l_id l = i)
      (map (\<lambda>x. if l_id x = l_id stored then ?l else x) (listDocs d)) = Some ?l"
    by (simp add: rep)
  have "find (\<lambda>l. l_id l = i) (listDocs (snd (lists_update env i body d))) = Some ?l"
  proof (cases "truthy_str (lb_id body)")
    case True
    with h r show ?thesis
      by (simp add: lists_update_def Let_def split: option.splits cong: if_cong)
  next
    case False
    with h r show ?thesis
      by (simp add: lists_update_def Let_def split: option.splits cong: if_cong)
  qed
  then show "\<exists>saved. find (\<lambda>l. l_id l = i) (listDocs (snd (lists_update env i body d))) = Some saved \<and>
             l_entries saved = map unpopulate_entry es"
    by simp
next
  show "length (map unpopulate_entry es) = length es" by simp
next
  assume "k < length es \<and> en_place (es ! k) = Some (PlaceObject (Some pid) rest) \<and> pid \<noteq> []"
  then show "map unpopulate_entry es ! k = (es ! k)\<lparr>en_place := Some (PlaceId pid)\<rparr>"
    by (simp add: unpopulate_entry_def truthy_str_def)
next
  assume "k < length es \<and> place_is_reference (es ! k)"
  then show "map unpopulate_entry es ! k = es ! k"
    by (simp add: unpopulate_entry_reference)
next
  assume "list_all place_has_id es"
  then show "list_all place_is_reference (map unpopulate_entry es)"
    by (simp add: list_all_iff unpopulate_entry_has_id)
next
  assume "list_all place_is_reference es"
  then show "map unpopulate_entry es = es"
    by (simp add: list_all_iff unpopulate_entry_reference map_idI)
next
  show "map unpopulate_entry (map unpopulate_entry es) = map unpopulate_entry es"
    by (simp add: unpopulate_entry_idem)
qed

theorem lists_update_unpopulates_witness:
  "(lb_entries lbody1 = Some entries1 \<and> findErr env1 = None \<and>
    find (\<lambda>l. l_id l = ''l1'') (listDocs db1) = Some list1 \<and> saveErr env1 = None) \<and>
   (\<exists>saved. find (\<lambda>l. l_id l = ''l1'') (listDocs (snd (lists_update env1 ''l1'' lbody1 db1))) =
              Some saved \<and>
           l_entries saved = map unpopulate_entry entries1) \<and>
   (0 < length entries1 \<and>
    en_place (entries1 ! 0) = Some (PlaceObject (Some ''p1'') [(''name'', ''Cafe'')]) \<and> ''p1'' \<noteq> []) \<and>
   map unpopulate_entry entries1 ! 0 = (entries1 ! 0)\<lparr>en_place := Some (PlaceId ''p1'')\<rparr> \<and>
   (1 < length entries1 \<and> place_is_reference (entries1 ! 1)) \<and>
   map unpopulate_entry entries1 ! 1 = entries1 ! 1 \<and>
   list_all place_has_id entries1 \<and>
   list_all place_is_reference (map unpopulate_entry entries1) \<and>
   map unpopulate_entry (map unpopulate_entry entries1) = map unpopulate_entry entries1"
proof -
  have h1: "lb_entries lbody1 = Some entries1 \<and> findErr env1 = None \<and>
    find (\<lambda>l. l_id l = ''l1'') (listDocs db1) = Some list1 \<and> saveErr env1 = None"
    by (simp add: fixtures)
  have h3: "0 < length entries1 \<and>
    en_place (entries1 ! 0) = Some (PlaceObject (Some ''p1'') [(''name'', ''Cafe'')]) \<and> ''p1'' \<noteq> []"
    by (simp add: fixtures)
  have h4: "1 < length entries1 \<and> place_is_reference (entries1 ! 1)"
    by (simp add: fixtures place_is_reference_def)
  have h5: "list_all place_has_id entries1"
    by (simp add: fixtures place_has_id_def truthy_str_def)
  note a = lists_update_unpopulates [where body = lbody1 and es = entries1 and env = env1
      and i = "''l1''" and d = db1 and stored = list1 and k = 0 and pid = "''p1''"
      and rest = "[(''name'', ''Cafe'')]"]
  note b = lists_update_unpopulates [where body = lbody1 and es = entries1 and env = env1
      and i = "''l1''" and d = db1 and stored = list1 and k = 1 and pid = "''p1''"
      and rest = "[(''name'', ''Cafe'')]"]
  note c1 = a [THEN conjunct1, THEN mp, OF h1]
  note c3 = a [THEN conjunct2, THEN conjunct2, THEN conjunct1, THEN mp, OF h3]
  note c4 = b [THEN conjunct2, THEN conjunct2, THEN conjunct2, THEN conjunct1, THEN mp, OF h4]
  note c5 = a [THEN conjunct2, THEN conjunct2, THEN conjunct2, THEN conjunct2, THEN conjunct1,
      THEN mp, OF h5]
  note c7 = a [THEN conjunct2, THEN conjunct2, THEN conjunct2, THEN conjunct2, THEN conjunct2,
      THEN conjunct2]
  from h1 c1 h3 c3 h4 c4 h5 c5 c7 show ?thesis by blast
qed

text \<open>
  C10. For every update request of a list whose body has no \<open>entries\<close> field, the handler
  raises before it sends any response and before it looks the list up: it sends neither
  200 nor 404 nor 500, and the store is as it was, whatever the store would have answered.
\<close>
theorem lists_update_no_entries:
  "lb_entries body = None \<Longrightarrow> lists_update env i body d = (Throws TypeError, d)"
  by (simp add: lists_update_def Let_def)

theorem lists_update_no_entries_witness:
  "lists_update env1 ''l1'' \<lparr>lb_id = Some ''l1'', lb_name = Some ''Renamed'', lb_entries = None\<rparr> db1
     = (Throws TypeError, db1)"
  using lists_update_no_entries [where body = "\<lparr>lb_id = Some ''l1'', lb_name = Some ''Renamed'', lb_entries = None\<rparr>" and env = env1 and i = "''l1''" and d = db1]
  by simp

end
